theory Spec2Isabelle
  imports Main "HOL-Library.AList"
begin

section \<open>Exceptions\<close>

text \<open>
  The exceptions raised by the two modules (\<^verbatim>\<open>rtmpy/rtmp/__init__.py\<close> and
  \<^verbatim>\<open>rtmpy/rpc.py\<close>). An operation of the model returns a pair: the outcome
  (\<open>Inl\<close> an exception, \<open>Inr\<close> the returned value) and the object's state when control
  leaves the method, since a Python method that raises keeps the mutations made before the
  \<^verbatim>\<open>raise\<close>.
\<close>

datatype error =
    ValueError
  | IndexError
  | KeyError
  | AttributeError
  | RuntimeError
  | NotImplementedError
  | NoCurrentExceptionError
  | CallFailed int
  | Raised string

section \<open>Stream registry (\<^verbatim>\<open>BaseProtocol\<close>, the \<^verbatim>\<open>IStreamManager\<close> part)\<close>

text \<open>\<^verbatim>\<open>MAX_STREAMS = 0xffff\<close>\<close>

definition MAX_STREAMS :: int where
  "MAX_STREAMS = 65535"

text \<open>
  A stream is a mutable object; the model names it by a reference and keeps the one
  attribute the registry writes, \<^verbatim>\<open>stream.streamId\<close>, in a store of its own.
  \<^verbatim>\<open>self.streams\<close> is a dict, \<^verbatim>\<open>self.activeStreams\<close> a list.
\<close>

type_synonym stream = nat

record streamManager =
  streams :: "int \<rightharpoonup> stream"
  activeStreams :: "int list"
  streamId :: "stream \<rightharpoonup> int"

text \<open>The registry as \<^verbatim>\<open>handshakeSuccess\<close> installs it: \<^verbatim>\<open>{}\<close> and \<^verbatim>\<open>[]\<close>.\<close>

definition newStreamManager :: streamManager where
  "newStreamManager = \<lparr>streams = Map.empty, activeStreams = [], streamId = Map.empty\<rparr>"

definition registerStream ::
  "int \<Rightarrow> stream \<Rightarrow> streamManager \<Rightarrow> (error + unit) \<times> streamManager" where
  "registerStream sid st m =
     (if sid < 0 \<or> sid > MAX_STREAMS then (Inl ValueError, m)
      else (Inr (),
            m\<lparr>streams := (streams m)(sid \<mapsto> st),
              activeStreams := activeStreams m @ [sid],
              streamId := (streamId m)(st \<mapsto> sid)\<rparr>))"

definition getStream :: "int \<Rightarrow> streamManager \<Rightarrow> (error + stream) \<times> streamManager" where
  "getStream sid m =
     (case streams m sid of
        None \<Rightarrow> (Inl KeyError, m)
      | Some s \<Rightarrow> (Inr s, m))"

text \<open>
  \<^verbatim>\<open>list.remove(x)\<close> deletes the first occurrence of \<open>x\<close> and raises
  \<^verbatim>\<open>ValueError\<close> when there is none; the dict entry is already deleted by then.
\<close>

definition removeStream :: "int \<Rightarrow> streamManager \<Rightarrow> (error + stream) \<times> streamManager" where
  "removeStream sid m =
     (case streams m sid of
        None \<Rightarrow> (Inl IndexError, m)
      | Some s \<Rightarrow>
          (let m1 = m\<lparr>streams := (streams m)(sid := None)\<rparr>
           in if sid \<in> set (activeStreams m1)
              then (Inr s, m1\<lparr>activeStreams := remove1 sid (activeStreams m1)\<rparr>)
              else (Inl ValueError, m1)))"

text \<open>
  The loop of \<^verbatim>\<open>getNextAvailableStreamId\<close> over
  \<^verbatim>\<open>enumerate(self.activeStreams)\<close>, with the counter \<open>i\<close>:
  \<^verbatim>\<open>if j != i: return i\<close>, then \<^verbatim>\<open>i += 1\<close>; after the loop, \<^verbatim>\<open>return i\<close>.
  The test compares the index \<open>j\<close>; the element \<open>streamId\<close> is bound and not read.
\<close>

fun nextIdLoop :: "(nat \<times> int) list \<Rightarrow> int \<Rightarrow> int" where
  "nextIdLoop [] i = i"
| "nextIdLoop ((j, sid) # rest) i = (if int j \<noteq> i then i else nextIdLoop rest (i + 1))"

text \<open>
  \<^verbatim>\<open>None\<close> is returned before the list is sorted; otherwise the list is sorted in
  place, so the state changes too.
\<close>

definition getNextAvailableStreamId :: "streamManager \<Rightarrow> int option \<times> streamManager" where
  "getNextAvailableStreamId m =
     (if int (length (activeStreams m)) = MAX_STREAMS then (None, m)
      else (let m1 = m\<lparr>activeStreams := sort (activeStreams m)\<rparr>
            in (Some (nextIdLoop (enumerate 0 (activeStreams m1)) 0), m1)))"

text \<open>
  The registry after \<^verbatim>\<open>registerStream(i, s)\<close> for each \<open>i\<close> of a list in turn,
  from a given registry, the stream object registered under \<open>i\<close> being the object
  numbered \<open>nat i\<close>. Used to write down the registries of the examples.
\<close>

definition registerAll :: "int list \<Rightarrow> streamManager \<Rightarrow> streamManager" where
  "registerAll ids m = fold (\<lambda>i r. snd (registerStream i (nat i) r)) ids m"

section \<open>Exposed methods (\<^verbatim>\<open>rpc.expose\<close>, \<^verbatim>\<open>rpc.getExposedMethods\<close>)\<close>

text \<open>
  A class object, as far as \<^verbatim>\<open>getExposedMethods\<close> reads and writes it:
  \<^verbatim>\<open>inspect.getmro(cls)\<close> (the class itself first, then its bases in method
  resolution order) and the two entries \<^verbatim>\<open>__exposed__\<close> and
  \<^verbatim>\<open>__exposed_mro__\<close> of the class's own \<^verbatim>\<open>__dict__\<close> (\<open>None\<close> when the
  entry is missing). Classes are named by strings; \<open>classes\<close> is the store of all class
  objects.
\<close>

record pyclass =
  mro :: "string list"
  exposed :: "(string \<rightharpoonup> string) option"
  exposed_mro :: "(string \<rightharpoonup> string) option"

type_synonym classes = "string \<Rightarrow> pyclass"

text \<open>
  \<^verbatim>\<open>add_meta(locals, exposed_name, func_name=None)\<close>, run by the decorator in the
  body of the class being defined:
  \<^verbatim>\<open>methods = locals.setdefault('__exposed__', {})\<close>, then
  \<^verbatim>\<open>methods[exposed_name] = func_name or exposed_name\<close>.
\<close>

definition add_meta :: "string \<Rightarrow> string option \<Rightarrow> pyclass \<Rightarrow> pyclass" where
  "add_meta exposed_name func_name c =
     (let methods = (case exposed c of None \<Rightarrow> Map.empty | Some ms \<Rightarrow> ms);
          target = (case func_name of
                      None \<Rightarrow> exposed_name
                    | Some f \<Rightarrow> if f = [] then exposed_name else f)
      in c\<lparr>exposed := Some (methods(exposed_name \<mapsto> target))\<rparr>)"

text \<open>
  The decorator in its two forms: \<^verbatim>\<open>@expose\<close> on a function named \<open>f\<close>
  calls \<^verbatim>\<open>add_meta(locals, f)\<close>; \<^verbatim>\<open>@expose(name)\<close> on it calls
  \<^verbatim>\<open>add_meta(locals, name, f)\<close>.
\<close>

definition expose :: "string \<Rightarrow> pyclass \<Rightarrow> pyclass" where
  "expose f c = add_meta f None c"

definition expose_as :: "string \<Rightarrow> string \<Rightarrow> pyclass \<Rightarrow> pyclass" where
  "expose_as name f c = add_meta name (Some f) c"

text \<open>
  The loop \<^verbatim>\<open>for i in inspect.getmro(cls)\<close>: when class \<open>i\<close> has an
  \<^verbatim>\<open>__exposed__\<close> dict, \<^verbatim>\<open>ret.update(methods)\<close>, which overwrites the keys
  \<open>ret\<close> already holds.
\<close>

fun collectExposed :: "classes \<Rightarrow> string list \<Rightarrow> (string \<rightharpoonup> string) \<Rightarrow> (string \<rightharpoonup> string)" where
  "collectExposed cs [] ret = ret"
| "collectExposed cs (i # rest) ret =
     (case exposed (cs i) of
        None \<Rightarrow> collectExposed cs rest ret
      | Some methods \<Rightarrow> collectExposed cs rest (ret ++ methods))"

definition getExposedMethods :: "string \<Rightarrow> classes \<Rightarrow> (string \<rightharpoonup> string) \<times> classes" where
  "getExposedMethods cls cs =
     (case exposed_mro (cs cls) of
        Some methods \<Rightarrow> (methods, cs)
      | None \<Rightarrow>
          (let ret = collectExposed cs (mro (cs cls)) Map.empty
           in (ret, cs(cls := (cs cls)\<lparr>exposed_mro := Some ret\<rparr>))))"

text \<open>
  The class hierarchy of the override example:
  \<^verbatim>\<open>
  class Base(object):
      @expose('foo')
      def base_impl(self): ...
  class Derived(Base):
      @expose('foo')
      def derived_impl(self): ...
  \<close>
\<close>

definition plainClass :: "string list \<Rightarrow> pyclass" where
  "plainClass linearisation = \<lparr>mro = linearisation, exposed = None, exposed_mro = None\<rparr>"

definition overrideExample :: classes where
  "overrideExample =
     (\<lambda>c. plainClass [c, ''object''])
       (''object'' := plainClass [''object''],
        ''Base'' := expose_as ''foo'' ''base_impl'' (plainClass [''Base'', ''object'']),
        ''Derived'' := expose_as ''foo'' ''derived_impl''
                         (plainClass [''Derived'', ''Base'', ''object'']))"

section \<open>Call registry (\<^verbatim>\<open>rpc.BaseCallHandler\<close>)\<close>

text \<open>
  Python values, as far as the call registry handles them. A context is the tuple
  \<^verbatim>\<open>args\<close> that \<^verbatim>\<open>initiateCall(*args)\<close> received. A
  \<^verbatim>\<open>defer.Deferred\<close> is an object of the Twisted library, named here by a number.
\<close>

datatype pyval =
    PNone
  | PInt int
  | PStr string
  | PTuple "pyval list"
  | PDeferred nat

text \<open>
  \<^verbatim>\<open>_activeCalls\<close> is a dict; the model keeps it as an association list with the
  dict's operations (\<open>AList.update\<close> for \<^verbatim>\<open>d[k] = v\<close>, \<open>AList.delete\<close> for
  \<^verbatim>\<open>d.pop(k, None)\<close>, \<open>map_of\<close> for \<^verbatim>\<open>d.get(k, None)\<close>), so that the
  number of entries under one key is a property to prove and not one of the type.
\<close>

record callHandler =
  lastCallId :: int
  activeCalls :: "(int \<times> pyval list) list"

definition newCallHandler :: callHandler where
  "newCallHandler = \<lparr>lastCallId = 0, activeCalls = []\<rparr>"

definition isCallActive :: "int \<Rightarrow> 'a callHandler_scheme \<Rightarrow> bool" where
  "isCallActive callId h = (callId \<in> set (map fst (activeCalls h)))"

definition getNextCallId :: "'a callHandler_scheme \<Rightarrow> int" where
  "getNextCallId h = lastCallId h + 1"

definition getCallContext :: "int \<Rightarrow> 'a callHandler_scheme \<Rightarrow> pyval list option" where
  "getCallContext callId h = map_of (activeCalls h) callId"

text \<open>
  \<^verbatim>\<open>callId = kwargs.get('callId', None)\<close>: the keyword left out and the keyword
  given as \<^verbatim>\<open>None\<close> are the same case.
\<close>

definition initiateCall ::
  "pyval list \<Rightarrow> int option \<Rightarrow> 'a callHandler_scheme \<Rightarrow> (error + int) \<times> 'a callHandler_scheme" where
  "initiateCall args callId h =
     (case callId of
        None \<Rightarrow>
          (let cid = getNextCallId h;
               h1 = h\<lparr>lastCallId := cid\<rparr>
           in (Inr cid, h1\<lparr>activeCalls := AList.update cid args (activeCalls h1)\<rparr>))
      | Some cid \<Rightarrow>
          if isCallActive cid h then (Inl (CallFailed cid), h)
          else (Inr cid, h\<lparr>activeCalls := AList.update cid args (activeCalls h)\<rparr>))"

definition finishCall ::
  "int \<Rightarrow> 'a callHandler_scheme \<Rightarrow> pyval list option \<times> 'a callHandler_scheme" where
  "finishCall callId h =
     (map_of (activeCalls h) callId, h\<lparr>activeCalls := AList.delete callId (activeCalls h)\<rparr>)"

definition discardCall ::
  "int \<Rightarrow> 'a callHandler_scheme \<Rightarrow> pyval list option \<times> 'a callHandler_scheme" where
  "discardCall callId h =
     (map_of (activeCalls h) callId, h\<lparr>activeCalls := AList.delete callId (activeCalls h)\<rparr>)"

section \<open>Call initiator (\<^verbatim>\<open>rpc.AbstractCallInitiator\<close>)\<close>

definition NO_RESULT :: int where
  "NO_RESULT = 0"

definition RESPONSE_RESULT :: string where
  "RESPONSE_RESULT = ''_result''"

definition RESPONSE_ERROR :: string where
  "RESPONSE_ERROR = ''_error''"

text \<open>\<^verbatim>\<open>message.Invoke(name, callId, command, *args)\<close>\<close>

datatype message = Invoke string int pyval "pyval list"

text \<open>
  \<^verbatim>\<open>RemoteCallFailed\<close> is a subclass of Twisted's \<^verbatim>\<open>failure.Failure\<close> with
  an empty body, so \<^verbatim>\<open>RemoteCallFailed(result)\<close> runs \<^verbatim>\<open>Failure.__init__\<close>
  with \<^verbatim>\<open>exc_value = result\<close>. A value other than \<^verbatim>\<open>None\<close> is wrapped.
  For \<^verbatim>\<open>None\<close> the constructor looks for the exception being handled and, there
  being none when a decoded response is dispatched, raises
  \<^verbatim>\<open>NoCurrentExceptionError\<close>.
\<close>

datatype failure = RemoteCallFailed pyval

definition newRemoteCallFailed :: "pyval \<Rightarrow> error + failure" where
  "newRemoteCallFailed result =
     (if result = PNone then Inl NoCurrentExceptionError else Inr (RemoteCallFailed result))"

text \<open>
  What the initiator does to objects of the Twisted library is recorded, oldest first:
  \<^verbatim>\<open>d.callback(v)\<close> and \<^verbatim>\<open>d.errback(f)\<close> on a Deferred in \<open>fired\<close>, each
  \<^verbatim>\<open>log.msg\<close> call in \<open>logged\<close>.
\<close>

datatype firing = Callback nat pyval | Errback nat failure

datatype logmsg =
    UnexpectedResponse
  | ResponseContext string pyval
  | UnknownCallId int string pyval
  | ReceivedCommand pyval pyval
  | InResponseTo pyval pyval
  | UnknownResponseType string
  | ResultWas pyval
  | OriginalCall pyval pyval pyval

text \<open>
  The initiator extends the call registry. \<open>deferreds\<close> counts the Deferred objects
  created so far, so that \<^verbatim>\<open>defer.Deferred()\<close> returns a new object each time.
\<close>

record callInitiator = callHandler +
  deferreds :: nat
  fired :: "firing list"
  logged :: "logmsg list"

definition newCallInitiator :: callInitiator where
  "newCallInitiator = \<lparr>lastCallId = 0, activeCalls = [], deferreds = 0, fired = [], logged = []\<rparr>"

text \<open>
  \<^verbatim>\<open>sendMessage\<close> is the subclass's: a parameter of the model, a function of the
  message and the whole object that either returns (\<open>None\<close>) or raises (\<open>Some e\<close>)
  and leaves the object in some state. The base class's own raises
  \<^verbatim>\<open>NotImplementedError\<close>; \<open>sendMessage_ok\<close> is a subclass whose send succeeds
  and touches nothing.
\<close>

type_synonym 'a sender = "message \<Rightarrow> 'a callInitiator_scheme \<Rightarrow> error option \<times> 'a callInitiator_scheme"

definition sendMessage :: "'a sender" where
  "sendMessage msg s = (Some NotImplementedError, s)"

definition sendMessage_ok :: "'a sender" where
  "sendMessage_ok msg s = (None, s)"

definition call :: "'a sender \<Rightarrow> string \<Rightarrow> pyval list \<Rightarrow> pyval \<Rightarrow> 'a callInitiator_scheme
    \<Rightarrow> (error + unit) \<times> 'a callInitiator_scheme" where
  "call send name args command s =
     (case send (Invoke name NO_RESULT command args) s of
        (Some e, s1) \<Rightarrow> (Inl e, s1)
      | (None, s1) \<Rightarrow> (Inr (), s1))"

text \<open>
  \<^verbatim>\<open>try: self.sendMessage(m)  except: self.discardCall(callId); raise\<close>.
  The value returned is the Deferred \<open>d\<close>.
\<close>

definition callWithResult :: "'a sender \<Rightarrow> string \<Rightarrow> pyval list \<Rightarrow> pyval \<Rightarrow> 'a callInitiator_scheme
    \<Rightarrow> (error + pyval) \<times> 'a callInitiator_scheme" where
  "callWithResult send name args command s =
     (let d = PDeferred (deferreds s);
          s1 = s\<lparr>deferreds := Suc (deferreds s)\<rparr>
      in case initiateCall [d, PStr name, PTuple args, command] None s1 of
           (Inl e, s2) \<Rightarrow> (Inl e, s2)
         | (Inr callId, s2) \<Rightarrow>
             (case send (Invoke name callId command args) s2 of
                (Some e, s3) \<Rightarrow> (Inl e, snd (discardCall callId s3))
              | (None, s3) \<Rightarrow> (Inr d, s3)))"

text \<open>
  \<^verbatim>\<open>d.callback(result)\<close> and \<^verbatim>\<open>d.errback(f)\<close>: a call on a Deferred is
  recorded; any other value stored in the first place of the context has no such method.
  Python looks the method up on \<open>d\<close> before it evaluates the argument, so \<open>errback\<close>
  takes the outcome of evaluating its argument: when that raised, the exception
  propagates and nothing is called.
\<close>

definition callback :: "pyval \<Rightarrow> pyval \<Rightarrow> 'a callInitiator_scheme
    \<Rightarrow> (error + unit) \<times> 'a callInitiator_scheme" where
  "callback d v s =
     (case d of
        PDeferred h \<Rightarrow> (Inr (), s\<lparr>fired := fired s @ [Callback h v]\<rparr>)
      | _ \<Rightarrow> (Inl AttributeError, s))"

definition errback :: "pyval \<Rightarrow> error + failure \<Rightarrow> 'a callInitiator_scheme
    \<Rightarrow> (error + unit) \<times> 'a callInitiator_scheme" where
  "errback d arg s =
     (case d of
        PDeferred h \<Rightarrow>
          (case arg of
             Inl e \<Rightarrow> (Inl e, s)
           | Inr f \<Rightarrow> (Inr (), s\<lparr>fired := fired s @ [Errback h f]\<rparr>))
      | _ \<Rightarrow> (Inl AttributeError, s))"

definition logMsgs :: "logmsg list \<Rightarrow> 'a callInitiator_scheme \<Rightarrow> 'a callInitiator_scheme" where
  "logMsgs msgs s = s\<lparr>logged := logged s @ msgs\<rparr>"

text \<open>
  \<^verbatim>\<open>d, originalName, originalArgs, originalCommand = callContext\<close>: unpacking a
  tuple into four names raises \<^verbatim>\<open>ValueError\<close> unless it has four elements.
\<close>

fun unpack4 :: "pyval list \<Rightarrow> error + (pyval \<times> pyval \<times> pyval \<times> pyval)" where
  "unpack4 [a, b, c, d] = Inr (a, b, c, d)"
| "unpack4 _ = Inl ValueError"

text \<open>
  \<^verbatim>\<open>handleResponse(name, callId, result, **kwargs)\<close>, with
  \<^verbatim>\<open>command = kwargs.get('command', None)\<close>. The context is taken out of the
  registry first, by \<^verbatim>\<open>finishCall\<close>.
\<close>

definition handleResponse :: "string \<Rightarrow> int \<Rightarrow> pyval \<Rightarrow> pyval \<Rightarrow> 'a callInitiator_scheme
    \<Rightarrow> (error + unit) \<times> 'a callInitiator_scheme" where
  "handleResponse name callId result command s =
     (case finishCall callId s of
        (None, s1) \<Rightarrow>
          if callId = NO_RESULT
          then (Inr (), logMsgs [UnexpectedResponse, ResponseContext name result] s1)
          else (Inr (), logMsgs [UnknownCallId callId name result] s1)
      | (Some callContext, s1) \<Rightarrow>
          (case unpack4 callContext of
             Inl e \<Rightarrow> (Inl e, s1)
           | Inr (d, originalName, originalArgs, originalCommand) \<Rightarrow>
               (let s2 = (if command \<noteq> PNone
                          then logMsgs [ReceivedCommand command result,
                                        InResponseTo originalName originalArgs] s1
                          else s1)
                in if name = RESPONSE_RESULT then callback d result s2
                   else if name = RESPONSE_ERROR then errback d (newRemoteCallFailed result) s2
                   else (Inr (), logMsgs [UnknownResponseType name, ResultWas result,
                                          OriginalCall originalName originalArgs originalCommand] s2))))"

section \<open>Connection state machine (\<^verbatim>\<open>rtmp.BaseProtocol\<close>)\<close>

text \<open>
  An attribute of the protocol object is missing (reading it raises
  \<^verbatim>\<open>AttributeError\<close>), \<^verbatim>\<open>None\<close>, or an object.
\<close>

datatype 'a attr = Unset | PyNone | Obj 'a

text \<open>
  \<^verbatim>\<open>self.state\<close> is compared with the two class constants; any other value takes
  the last branch of \<^verbatim>\<open>dataReceived\<close>.
\<close>

datatype phase = HANDSHAKE | STREAM | OtherState string

datatype negotiator = ClientNegotiator | ServerNegotiator

datatype codec = Decoder | Encoder

text \<open>
  The calls the protocol makes on its collaborators (the handshake negotiator, the
  decoder and encoder, the transport, the module's \<^verbatim>\<open>log\<close>), recorded oldest first.
\<close>

datatype collaboratorCall =
    HandshakerDataReceived string
  | DecoderDataReceived string
  | LoseConnection
  | DecoderPause
  | EncoderPause
  | RegisterObserver codec
  | RegisterConsumer
  | Log string

record protocol =
  debug :: bool
  state :: "phase attr"
  handshaker :: "negotiator attr"
  decoder :: "codec attr"
  encoder :: "codec attr"
  registry :: "streamManager option"
  trace :: "collaboratorCall list"

text \<open>
  The object after \<^verbatim>\<open>__init__\<close> (\<^verbatim>\<open>self.debug = DEBUG\<close>, and
  \<^verbatim>\<open>DEBUG = False\<close>), with a transport attached and nothing else set.
\<close>

definition DEBUG :: bool where
  "DEBUG = False"

definition newProtocol :: protocol where
  "newProtocol = \<lparr>debug = DEBUG, state = Unset, handshaker = Unset, decoder = Unset,
     encoder = Unset, registry = None, trace = []\<rparr>"

definition record_call :: "collaboratorCall \<Rightarrow> protocol \<Rightarrow> protocol" where
  "record_call c p = p\<lparr>trace := trace p @ [c]\<rparr>"

text \<open>\<^verbatim>\<open>if self.debug or DEBUG: log(self, msg)\<close>\<close>

definition debugLog :: "string \<Rightarrow> protocol \<Rightarrow> protocol" where
  "debugLog msg p = (if debug p \<or> DEBUG then record_call (Log msg) p else p)"

text \<open>
  \<^verbatim>\<open>buildHandshakeNegotiator\<close> is the subclass's: the base class raises
  \<^verbatim>\<open>NotImplementedError\<close>, the client and the server return their negotiator.
  \<open>connectionMade\<close> takes its outcome as a parameter.
\<close>

definition buildHandshakeNegotiator :: "error + negotiator" where
  "buildHandshakeNegotiator = Inl NotImplementedError"

definition connectionMade :: "error + negotiator \<Rightarrow> protocol \<Rightarrow> (error + unit) \<times> protocol" where
  "connectionMade build p =
     (let p1 = debugLog ''Connection made'' p;
          p2 = p1\<lparr>encoder := PyNone, decoder := PyNone, state := Obj HANDSHAKE\<rparr>
      in case build of
           Inl e \<Rightarrow> (Inl e, p2)
         | Inr n \<Rightarrow> (Inr (), p2\<lparr>handshaker := Obj n\<rparr>))"

definition decodeHandshake :: "string \<Rightarrow> protocol \<Rightarrow> (error + unit) \<times> protocol" where
  "decodeHandshake data p =
     (case handshaker p of
        Obj n \<Rightarrow> (Inr (), record_call (HandshakerDataReceived data) p)
      | _ \<Rightarrow> (Inl AttributeError, p))"

definition decodeStream :: "string \<Rightarrow> protocol \<Rightarrow> (error + unit) \<times> protocol" where
  "decodeStream data p =
     (case decoder p of
        Obj d \<Rightarrow> (Inr (), record_call (DecoderDataReceived data) p)
      | _ \<Rightarrow> (Inl AttributeError, p))"

definition dataReceived :: "string \<Rightarrow> protocol \<Rightarrow> (error + unit) \<times> protocol" where
  "dataReceived data p =
     (case state p of
        Obj STREAM \<Rightarrow> decodeStream data p
      | Obj HANDSHAKE \<Rightarrow> decodeHandshake data p
      | Obj (OtherState x) \<Rightarrow> (Inl RuntimeError, record_call LoseConnection p)
      | PyNone \<Rightarrow> (Inl RuntimeError, record_call LoseConnection p)
      | Unset \<Rightarrow> (Inl AttributeError, p))"

text \<open>
  \<^verbatim>\<open>handshakeSuccess\<close>: the state, the registry and the codecs are set before
  \<^verbatim>\<open>del self.handshaker\<close>, which raises when the attribute is not there.
\<close>

definition handshakeSuccess :: "protocol \<Rightarrow> (error + unit) \<times> protocol" where
  "handshakeSuccess p =
     (let p1 = debugLog ''Successful handshake'' p;
          p2 = p1\<lparr>state := Obj STREAM,
                  registry := Some (case registry p1 of
                                      None \<Rightarrow> newStreamManager
                                    | Some r \<Rightarrow> r\<lparr>streams := Map.empty, activeStreams := []\<rparr>),
                  decoder := Obj Decoder,
                  encoder := Obj Encoder\<rparr>;
          p3 = record_call RegisterConsumer
                 (record_call (RegisterObserver Encoder)
                    (record_call (RegisterObserver Decoder) p2))
      in case handshaker p3 of
           Unset \<Rightarrow> (Inl AttributeError, p3)
         | _ \<Rightarrow> (Inr (), p3\<lparr>handshaker := Unset\<rparr>))"

definition handshakeFailure :: "string \<Rightarrow> protocol \<Rightarrow> (error + unit) \<times> protocol" where
  "handshakeFailure reason p =
     (Inr (), record_call LoseConnection (debugLog ''Failed handshake'' p))"

text \<open>\<^verbatim>\<open>if self.decoder: self.decoder.pause()\<close>, and the same for the encoder.\<close>

definition connectionLost :: "string \<Rightarrow> protocol \<Rightarrow> (error + unit) \<times> protocol" where
  "connectionLost reason p =
     (let p1 = debugLog ''Lost connection'' p
      in case decoder p1 of
           Unset \<Rightarrow> (Inl AttributeError, p1)
         | d \<Rightarrow>
             (let p2 = (if d = PyNone then p1 else record_call DecoderPause p1)
              in case encoder p2 of
                   Unset \<Rightarrow> (Inl AttributeError, p2)
                 | e \<Rightarrow> (Inr (), if e = PyNone then p2 else record_call EncoderPause p2)))"

text \<open>
  The events a connected protocol receives from the transport and from its negotiator.
  Twisted calls \<^verbatim>\<open>connectionMade\<close> once, before any of them; an event whose method
  raises leaves the object as the method left it.
\<close>

datatype event =
    DataReceived string
  | HandshakeSuccess
  | HandshakeFailure string
  | ConnectionLost string

fun handle :: "event \<Rightarrow> protocol \<Rightarrow> protocol" where
  "handle (DataReceived data) p = snd (dataReceived data p)"
| "handle HandshakeSuccess p = snd (handshakeSuccess p)"
| "handle (HandshakeFailure reason) p = snd (handshakeFailure reason p)"
| "handle (ConnectionLost reason) p = snd (connectionLost reason p)"

definition run :: "event list \<Rightarrow> protocol \<Rightarrow> protocol" where
  "run evs p = fold handle evs p"

text \<open>The protocol right after \<^verbatim>\<open>connectionMade\<close>.\<close>

definition connected :: "error + negotiator \<Rightarrow> protocol" where
  "connected build = snd (connectionMade build newProtocol)"

text \<open>The data handed to the decoder, and to the negotiator, in a trace.\<close>

definition streamData :: "collaboratorCall list \<Rightarrow> string list" where
  "streamData t = concat (map (\<lambda>c. case c of DecoderDataReceived d \<Rightarrow> [d] | _ \<Rightarrow> []) t)"

definition handshakeData :: "collaboratorCall list \<Rightarrow> string list" where
  "handshakeData t = concat (map (\<lambda>c. case c of HandshakerDataReceived d \<Rightarrow> [d] | _ \<Rightarrow> []) t)"

section \<open>Invariants of the connection\<close>

text \<open>
  \<open>handshaking\<close> holds from \<^verbatim>\<open>connectionMade\<close> until the handshake succeeds:
  no codec is installed and nothing has reached a decoder. \<open>streaming\<close> holds from the
  first \<^verbatim>\<open>handshakeSuccess\<close> on.
\<close>

definition handshaking :: "protocol \<Rightarrow> bool" where
  "handshaking p \<longleftrightarrow>
     state p = Obj HANDSHAKE \<and> decoder p = PyNone \<and> encoder p = PyNone
     \<and> streamData (trace p) = []"

definition streaming :: "protocol \<Rightarrow> bool" where
  "streaming p \<longleftrightarrow> state p = Obj STREAM \<and> decoder p = Obj Decoder \<and> handshaker p = Unset"

section \<open>Properties of the stream registry\<close>

lemma nextIdLoop_enumerate:
  "nextIdLoop (enumerate n xs) (int n) = int n + int (length xs)"
proof (induction xs arbitrary: n)
  case Nil
  show ?case by simp
next
  case (Cons x xs)
  have "nextIdLoop (enumerate n (x # xs)) (int n) = nextIdLoop (enumerate (Suc n) xs) (int (Suc n))"
    by (simp add: add.commute)
  also have "\<dots> = int (Suc n) + int (length xs)"
    by (rule Cons.IH)
  finally show ?case by simp
qed

text \<open>
  Since the loop compares the index with the counter, it never returns early: the
  result is the length of the active list, whatever ids the list holds.
\<close>

lemma getNextAvailableStreamId_length:
  "fst (getNextAvailableStreamId m) =
     (if int (length (activeStreams m)) = MAX_STREAMS then None
      else Some (int (length (activeStreams m))))"
  using nextIdLoop_enumerate [of 0 "sort (activeStreams m)"]
  by (simp add: getNextAvailableStreamId_def Let_def)

lemma registerAll_active:
  "\<forall>i \<in> set ids. 0 \<le> i \<and> i \<le> MAX_STREAMS \<Longrightarrow>
     activeStreams (registerAll ids m) = activeStreams m @ ids"
  unfolding registerAll_def
  by (induction ids arbitrary: m) (auto simp: registerStream_def)

lemma getNextAvailableStreamId_examples:
  "fst (getNextAvailableStreamId newStreamManager) = Some 0"
  "fst (getNextAvailableStreamId (registerAll [0, 1, 2] newStreamManager)) = Some 3"
  by (simp_all add: getNextAvailableStreamId_length registerAll_def registerStream_def
                    newStreamManager_def MAX_STREAMS_def)

text \<open>
  C1. The smallest free id is not what the code returns. After
  \<^verbatim>\<open>registerStream(0, _)\<close> and \<^verbatim>\<open>registerStream(2, _)\<close> on an empty registry
  the active list is \<open>[0, 2]\<close>, id 1 is free and id 2 is taken, and
  \<^verbatim>\<open>getNextAvailableStreamId\<close> returns 2: the length of the list, not the first gap.
\<close>

theorem getNextAvailableStreamId_skips_gap:
  "fst (getNextAvailableStreamId (registerAll [0, 2] newStreamManager)) = Some 2
   \<and> activeStreams (registerAll [0, 2] newStreamManager) = [0, 2]
   \<and> streams (registerAll [0, 2] newStreamManager) 2 \<noteq> None
   \<and> streams (registerAll [0, 2] newStreamManager) 1 = None"
  by (simp add: getNextAvailableStreamId_length registerAll_def registerStream_def
                newStreamManager_def MAX_STREAMS_def)

text \<open>
  C4, as stated, fails at both ends: with the 65536 ids \<open>0 .. 65535\<close> registered the
  result is the integer 65536, not the no-capacity signal; and with the 65535 ids
  \<open>0 .. 65534\<close> registered, fewer than 65536, the result is the no-capacity signal.
\<close>

theorem getNextAvailableStreamId_capacity_counterexample:
  "fst (getNextAvailableStreamId (registerAll [0..65535] newStreamManager)) = Some 65536
   \<and> fst (getNextAvailableStreamId (registerAll [0..65534] newStreamManager)) = None"
  by (simp add: getNextAvailableStreamId_length registerAll_active MAX_STREAMS_def
                newStreamManager_def)

text \<open>
  C4, amended: \<^verbatim>\<open>getNextAvailableStreamId\<close> returns the no-capacity signal when
  exactly \<open>MAX_STREAMS = 65535\<close> ids are in the active list, and an integer whenever
  fewer than 65535 are.
\<close>

theorem getNextAvailableStreamId_capacity:
  "(int (length (activeStreams m)) = MAX_STREAMS \<longrightarrow> fst (getNextAvailableStreamId m) = None)
   \<and> (int (length (activeStreams m)) < MAX_STREAMS \<longrightarrow>
        (\<exists>i. fst (getNextAvailableStreamId m) = Some i))"
  by (simp add: getNextAvailableStreamId_length)

theorem getNextAvailableStreamId_capacity_witness:
  "int (length (activeStreams (registerAll [0..65534] newStreamManager))) = MAX_STREAMS
   \<and> fst (getNextAvailableStreamId (registerAll [0..65534] newStreamManager)) = None
   \<and> int (length (activeStreams newStreamManager)) < MAX_STREAMS
   \<and> (\<exists>i. fst (getNextAvailableStreamId newStreamManager) = Some i)"
  using getNextAvailableStreamId_capacity [of "registerAll [0..65534] newStreamManager"]
    getNextAvailableStreamId_capacity [of newStreamManager]
  by (simp add: registerAll_active MAX_STREAMS_def newStreamManager_def)

text \<open>
  C10. \<^verbatim>\<open>registerStream\<close> raises the range error exactly when the id is below 0 or
  above \<open>MAX_STREAMS\<close>. For every id in range, registered before or not, it succeeds:
  the stream stored under the id is replaced, the stream is stamped with the id, and the
  id is appended to the active list once more, so its number of occurrences grows by one.
  A following \<^verbatim>\<open>removeStream\<close> returns the stream, deletes the entry and takes one
  occurrence out of the active list, which leaves as many as before the registration.
\<close>

theorem registerStream_range_and_duplicates:
  "(fst (registerStream sid st m) = Inl ValueError \<longleftrightarrow> sid < 0 \<or> sid > MAX_STREAMS)
   \<and> (fst (registerStream sid st m) = Inr () \<longleftrightarrow> 0 \<le> sid \<and> sid \<le> MAX_STREAMS)
   \<and> (0 \<le> sid \<and> sid \<le> MAX_STREAMS \<longrightarrow>
        (let m1 = snd (registerStream sid st m) in
           streams m1 = (streams m)(sid \<mapsto> st)
           \<and> activeStreams m1 = activeStreams m @ [sid]
           \<and> streamId m1 st = Some sid
           \<and> count_list (activeStreams m1) sid = count_list (activeStreams m) sid + 1
           \<and> removeStream sid m1 =
               (Inr st, m1\<lparr>streams := (streams m1)(sid := None),
                           activeStreams := remove1 sid (activeStreams m1)\<rparr>)
           \<and> count_list (activeStreams (snd (removeStream sid m1))) sid
               = count_list (activeStreams m) sid))"
  by (auto simp: registerStream_def removeStream_def Let_def)

theorem registerStream_range_and_duplicates_witness:
  "0 \<le> (5::int) \<and> 5 \<le> MAX_STREAMS
   \<and> activeStreams (snd (registerStream 5 0 newStreamManager)) = [5]
   \<and> activeStreams (snd (registerStream 5 1 (snd (registerStream 5 0 newStreamManager))))
       = [5, 5]
   \<and> streams (snd (registerStream 5 1 (snd (registerStream 5 0 newStreamManager)))) 5 = Some 1
   \<and> fst (removeStream 5 (snd (registerStream 5 1 (snd (registerStream 5 0 newStreamManager)))))
       = Inr 1
   \<and> activeStreams (snd (removeStream 5
         (snd (registerStream 5 1 (snd (registerStream 5 0 newStreamManager)))))) = [5]
   \<and> streams (snd (removeStream 5
         (snd (registerStream 5 1 (snd (registerStream 5 0 newStreamManager)))))) 5 = None"
  using registerStream_range_and_duplicates [of 5 1 "snd (registerStream 5 0 newStreamManager)"]
  by (simp add: registerStream_def removeStream_def newStreamManager_def MAX_STREAMS_def)

section \<open>Properties of the exposed-method table\<close>

text \<open>
  A table resolved once is stored on the class; the next resolution returns the stored
  table and leaves every class as it is.
\<close>

lemma getExposedMethods_cached:
  "getExposedMethods cls (snd (getExposedMethods cls cs))
     = (fst (getExposedMethods cls cs), snd (getExposedMethods cls cs))"
  by (simp add: getExposedMethods_def Let_def split: option.splits)

text \<open>
  C2. On a name exposed by a class and by its base, resolution does not keep the derived
  declaration. \<open>Derived\<close> exposes \<open>foo\<close> as \<open>derived_impl\<close>, its base exposes
  \<open>foo\<close> as \<open>base_impl\<close>, the resolution order of \<open>Derived\<close> puts \<open>Derived\<close>
  first, and the table resolved for \<open>Derived\<close> maps \<open>foo\<close> to \<open>base_impl\<close>:
  the loop updates the table class by class in resolution order, so the last class wins.
\<close>

theorem getExposedMethods_base_overrides_derived:
  "fst (getExposedMethods ''Derived'' overrideExample) ''foo'' = Some ''base_impl''
   \<and> exposed (overrideExample ''Derived'') = Some [''foo'' \<mapsto> ''derived_impl'']
   \<and> exposed (overrideExample ''Base'') = Some [''foo'' \<mapsto> ''base_impl'']
   \<and> mro (overrideExample ''Derived'') = [''Derived'', ''Base'', ''object'']"
  by (simp add: getExposedMethods_def overrideExample_def expose_as_def add_meta_def
                plainClass_def Let_def)

section \<open>Properties of the call registry\<close>

text \<open>
  C3. Two calls that are active at the same time can carry the same call id. On a new
  registry, \<^verbatim>\<open>initiateCall('a', callId=1)\<close> returns 1 and leaves the counter at 0;
  \<^verbatim>\<open>initiateCall('b')\<close> then allocates counter plus one, which is 1 again, without
  asking whether 1 is active, and returns it. Neither call has been finished or
  discarded, both were given id 1, and the registry has dropped the first context: the
  one \<^verbatim>\<open>finishCall(1)\<close> that finds a call returns \<open>'b'\<close>, and the first call can
  no longer be finished.
\<close>

theorem initiateCall_reuses_active_id:
  "fst (initiateCall [PStr ''a''] (Some 1) newCallHandler) = Inr 1
   \<and> isCallActive 1 (snd (initiateCall [PStr ''a''] (Some 1) newCallHandler))
   \<and> fst (initiateCall [PStr ''b''] None
            (snd (initiateCall [PStr ''a''] (Some 1) newCallHandler))) = Inr 1
   \<and> activeCalls (snd (initiateCall [PStr ''b''] None
            (snd (initiateCall [PStr ''a''] (Some 1) newCallHandler)))) = [(1, [PStr ''b''])]
   \<and> fst (finishCall 1 (snd (initiateCall [PStr ''b''] None
            (snd (initiateCall [PStr ''a''] (Some 1) newCallHandler))))) = Some [PStr ''b'']
   \<and> fst (finishCall 1 (snd (finishCall 1 (snd (initiateCall [PStr ''b''] None
            (snd (initiateCall [PStr ''a''] (Some 1) newCallHandler))))))) = None"
  by (simp add: initiateCall_def finishCall_def isCallActive_def getNextCallId_def
                newCallHandler_def Let_def)

text \<open>
  C7. With the call id left out, \<^verbatim>\<open>initiateCall\<close> takes the counter plus one,
  makes it the counter, stores the context under it and returns it. With a call id that
  is active it raises \<^verbatim>\<open>CallFailed\<close> and changes nothing; with one that is not
  active it stores the context under that id and returns it, the counter unchanged.
\<close>

theorem initiateCall_allocates_or_rejects:
  "initiateCall args None h =
     (Inr (lastCallId h + 1),
      h\<lparr>lastCallId := lastCallId h + 1,
        activeCalls := AList.update (lastCallId h + 1) args (activeCalls h)\<rparr>)
   \<and> getCallContext (lastCallId h + 1) (snd (initiateCall args None h)) = Some args
   \<and> (isCallActive callId h \<longrightarrow>
        initiateCall args (Some callId) h = (Inl (CallFailed callId), h))
   \<and> (\<not> isCallActive callId h \<longrightarrow>
        initiateCall args (Some callId) h =
          (Inr callId, h\<lparr>activeCalls := AList.update callId args (activeCalls h)\<rparr>)
        \<and> getCallContext callId (snd (initiateCall args (Some callId) h)) = Some args)"
  by (simp add: initiateCall_def getNextCallId_def getCallContext_def Let_def update_conv')

theorem initiateCall_allocates_or_rejects_witness:
  "isCallActive 7 (snd (initiateCall [PStr ''first''] (Some 7) newCallHandler))
   \<and> fst (initiateCall [PStr ''again''] (Some 7)
            (snd (initiateCall [PStr ''first''] (Some 7) newCallHandler))) = Inl (CallFailed 7)
   \<and> \<not> isCallActive 8 (snd (initiateCall [PStr ''first''] (Some 7) newCallHandler))
   \<and> fst (initiateCall [PStr ''other''] (Some 8)
            (snd (initiateCall [PStr ''first''] (Some 7) newCallHandler))) = Inr 8
   \<and> fst (initiateCall [PStr ''other''] None
            (snd (initiateCall [PStr ''first''] (Some 7) newCallHandler))) = Inr 1"
  using initiateCall_allocates_or_rejects
      [of "[PStr ''again'']" "snd (initiateCall [PStr ''first''] (Some 7) newCallHandler)" 7]
    initiateCall_allocates_or_rejects
      [of "[PStr ''other'']" "snd (initiateCall [PStr ''first''] (Some 7) newCallHandler)" 8]
  by (simp add: initiateCall_def isCallActive_def newCallHandler_def)

section \<open>Properties of the call initiator\<close>

lemma finishCall_not_active: "\<not> isCallActive callId (snd (finishCall callId h))"
  by (simp add: finishCall_def isCallActive_def delete_notin_dom)

lemma discardCall_not_active: "\<not> isCallActive callId (snd (discardCall callId h))"
  by (simp add: discardCall_def isCallActive_def delete_notin_dom)

lemma isCallActive_map_of: "isCallActive callId h \<longleftrightarrow> map_of (activeCalls h) callId \<noteq> None"
  by (simp add: isCallActive_def map_of_eq_None_iff)

lemma callback_activeCalls: "activeCalls (snd (callback d v s)) = activeCalls s"
  by (cases d) (simp_all add: callback_def)

lemma errback_activeCalls: "activeCalls (snd (errback d arg s)) = activeCalls s"
  by (cases d; cases arg) (simp_all add: errback_def)

lemma logMsgs_fields:
  "activeCalls (logMsgs msgs s) = activeCalls s" "fired (logMsgs msgs s) = fired s"
  by (simp_all add: logMsgs_def)

text \<open>Whatever the response and whatever was stored, the entry of the call id is gone.\<close>

lemma handleResponse_activeCalls:
  "activeCalls (snd (handleResponse name callId result command s))
     = AList.delete callId (activeCalls s)"
proof (cases "map_of (activeCalls s) callId")
  case None
  then show ?thesis
    by (simp add: handleResponse_def finishCall_def logMsgs_fields)
next
  case (Some callContext)
  show ?thesis
  proof (cases "unpack4 callContext")
    case (Inl e)
    with Some show ?thesis
      by (simp add: handleResponse_def finishCall_def)
  next
    case (Inr t)
    obtain d n a c where t: "t = (d, n, a, c)"
      by (cases t)
    with Some Inr show ?thesis
      by (simp add: handleResponse_def finishCall_def Let_def logMsgs_fields
                    callback_activeCalls errback_activeCalls)
  qed
qed

lemma handleResponse_found:
  assumes "getCallContext callId s = Some [d, oname, oargs, ocmd]"
  shows "handleResponse name callId result command s =
     (let s1 = s\<lparr>activeCalls := AList.delete callId (activeCalls s)\<rparr>;
          s2 = (if command \<noteq> PNone
                then logMsgs [ReceivedCommand command result, InResponseTo oname oargs] s1
                else s1)
      in if name = RESPONSE_RESULT then callback d result s2
         else if name = RESPONSE_ERROR then errback d (newRemoteCallFailed result) s2
         else (Inr (), logMsgs [UnknownResponseType name, ResultWas result,
                                OriginalCall oname oargs ocmd] s2))"
  using assms by (simp add: handleResponse_def finishCall_def getCallContext_def Let_def)

text \<open>What \<^verbatim>\<open>callWithResult\<close> stores and returns when the send succeeds.\<close>

lemma callWithResult_ok:
  "callWithResult sendMessage_ok name args command s =
     (Inr (PDeferred (deferreds s)),
      s\<lparr>lastCallId := lastCallId s + 1,
        activeCalls := AList.update (lastCallId s + 1)
                         [PDeferred (deferreds s), PStr name, PTuple args, command] (activeCalls s),
        deferreds := Suc (deferreds s)\<rparr>)"
  by (simp add: callWithResult_def initiateCall_def getNextCallId_def sendMessage_ok_def Let_def)

text \<open>
  When the context stored under a call id is the one \<^verbatim>\<open>callWithResult\<close> stores
  (a Deferred \<open>d\<close>, the name, the arguments, the command), \<^verbatim>\<open>handleResponse\<close>
  with the result tag and that id returns normally and calls \<^verbatim>\<open>d.callback\<close> with
  exactly the supplied result, once; with the error tag and a payload other than
  \<^verbatim>\<open>None\<close> it calls \<^verbatim>\<open>d.errback\<close> with \<^verbatim>\<open>RemoteCallFailed\<close> wrapping
  the payload, once. In both cases the call is not active afterwards.
\<close>

lemma handleResponse_fires:
  assumes "getCallContext callId s = Some [PDeferred d, originalName, originalArgs, originalCommand]"
  shows "fst (handleResponse RESPONSE_RESULT callId result command s) = Inr ()
       \<and> fired (snd (handleResponse RESPONSE_RESULT callId result command s))
           = fired s @ [Callback d result]
       \<and> \<not> isCallActive callId (snd (handleResponse RESPONSE_RESULT callId result command s))
       \<and> (result \<noteq> PNone \<longrightarrow>
            fst (handleResponse RESPONSE_ERROR callId result command s) = Inr ()
            \<and> fired (snd (handleResponse RESPONSE_ERROR callId result command s))
                = fired s @ [Errback d (RemoteCallFailed result)])
       \<and> \<not> isCallActive callId (snd (handleResponse RESPONSE_ERROR callId result command s))"
proof -
  have ne: "RESPONSE_ERROR \<noteq> RESPONSE_RESULT"
    by (simp add: RESPONSE_ERROR_def RESPONSE_RESULT_def)
  have gone: "\<not> isCallActive callId (snd (handleResponse name callId result command s))" for name
    by (simp add: isCallActive_def handleResponse_activeCalls delete_notin_dom)
  have res: "fst (handleResponse RESPONSE_RESULT callId result command s) = Inr ()
       \<and> fired (snd (handleResponse RESPONSE_RESULT callId result command s))
           = fired s @ [Callback d result]"
    by (simp add: handleResponse_found [OF assms] callback_def logMsgs_def Let_def)
  have err: "fst (handleResponse RESPONSE_ERROR callId result command s) = Inr ()
       \<and> fired (snd (handleResponse RESPONSE_ERROR callId result command s))
           = fired s @ [Errback d (RemoteCallFailed result)]" if "result \<noteq> PNone"
    using that
    by (simp add: handleResponse_found [OF assms] errback_def newRemoteCallFailed_def
                  logMsgs_def Let_def ne)
  from res err gone show ?thesis by blast
qed

text \<open>
  C5. An error response whose payload is \<^verbatim>\<open>None\<close> does not reject the handle.
  After \<^verbatim>\<open>callWithResult('add', 2, 3)\<close> on a new initiator the call has id 1 and
  its context holds the Deferred numbered 0. \<^verbatim>\<open>handleResponse('_error', 1, None)\<close>
  takes the call out of the registry and then raises
  \<^verbatim>\<open>NoCurrentExceptionError\<close> while building \<^verbatim>\<open>RemoteCallFailed(None)\<close>:
  \<^verbatim>\<open>errback\<close> is not called, so the Deferred stays pending and no later response
  can reach it. The same response with the payload \<open>'boom'\<close> rejects the handle.
\<close>

theorem handleResponse_error_null_payload:
  "getCallContext 1 (snd (callWithResult sendMessage_ok ''add'' [PInt 2, PInt 3] PNone newCallInitiator))
     = Some [PDeferred 0, PStr ''add'', PTuple [PInt 2, PInt 3], PNone]
   \<and> fst (handleResponse RESPONSE_ERROR 1 PNone PNone
        (snd (callWithResult sendMessage_ok ''add'' [PInt 2, PInt 3] PNone newCallInitiator)))
      = Inl NoCurrentExceptionError
   \<and> fired (snd (handleResponse RESPONSE_ERROR 1 PNone PNone
        (snd (callWithResult sendMessage_ok ''add'' [PInt 2, PInt 3] PNone newCallInitiator))))
      = []
   \<and> \<not> isCallActive 1 (snd (handleResponse RESPONSE_ERROR 1 PNone PNone
        (snd (callWithResult sendMessage_ok ''add'' [PInt 2, PInt 3] PNone newCallInitiator))))
   \<and> fired (snd (handleResponse RESPONSE_ERROR 1 (PStr ''boom'') PNone
        (snd (callWithResult sendMessage_ok ''add'' [PInt 2, PInt 3] PNone newCallInitiator))))
      = [Errback 0 (RemoteCallFailed (PStr ''boom''))]"
proof -
  let ?s = "snd (callWithResult sendMessage_ok ''add'' [PInt 2, PInt 3] PNone newCallInitiator)"
  have ctx: "getCallContext 1 ?s = Some [PDeferred 0, PStr ''add'', PTuple [PInt 2, PInt 3], PNone]"
    by (simp add: callWithResult_ok getCallContext_def newCallInitiator_def)
  have f: "fired ?s = []"
    by (simp add: callWithResult_ok newCallInitiator_def)
  have ne: "RESPONSE_ERROR \<noteq> RESPONSE_RESULT"
    by (simp add: RESPONSE_ERROR_def RESPONSE_RESULT_def)
  have null: "handleResponse RESPONSE_ERROR 1 PNone PNone ?s
      = (Inl NoCurrentExceptionError, ?s\<lparr>activeCalls := AList.delete 1 (activeCalls ?s)\<rparr>)"
    by (simp add: handleResponse_found [OF ctx] errback_def newRemoteCallFailed_def Let_def ne)
  have gone: "\<not> isCallActive 1 (snd (handleResponse RESPONSE_ERROR 1 PNone PNone ?s))"
    by (simp add: isCallActive_def handleResponse_activeCalls delete_notin_dom)
  have boom: "fired (snd (handleResponse RESPONSE_ERROR 1 (PStr ''boom'') PNone ?s))
      = [Errback 0 (RemoteCallFailed (PStr ''boom''))]"
    using handleResponse_fires [OF ctx, of "PStr ''boom''" PNone] f by simp
  from ctx null f gone boom show ?thesis by simp
qed

text \<open>
  C6. Let \<open>s2\<close> be the initiator at the moment \<^verbatim>\<open>callWithResult\<close> calls
  \<^verbatim>\<open>sendMessage\<close>: the call is allocated and active there. When that send
  raises \<open>e\<close>, \<^verbatim>\<open>callWithResult\<close> raises \<open>e\<close>, and in the state it leaves the
  allocated call id is not active: the registry is the one the send left, with that
  entry deleted.
\<close>

theorem callWithResult_send_failure_discards:
  assumes "s2 = snd (initiateCall [PDeferred (deferreds s), PStr name, PTuple args, command] None
                     (s\<lparr>deferreds := Suc (deferreds s)\<rparr>))"
    and "fst (send (Invoke name (getNextCallId s) command args) s2) = Some e"
  shows "isCallActive (getNextCallId s) s2
       \<and> fst (callWithResult send name args command s) = Inl e
       \<and> \<not> isCallActive (getNextCallId s) (snd (callWithResult send name args command s))
       \<and> getCallContext (getNextCallId s) (snd (callWithResult send name args command s)) = None
       \<and> activeCalls (snd (callWithResult send name args command s))
           = AList.delete (getNextCallId s)
               (activeCalls (snd (send (Invoke name (getNextCallId s) command args) s2)))"
proof -
  let ?ctx = "[PDeferred (deferreds s), PStr name, PTuple args, command]"
  let ?cid = "getNextCallId s"
  obtain r s3 where sent: "send (Invoke name ?cid command args) s2 = (r, s3)"
    by (cases "send (Invoke name ?cid command args) s2")
  with assms(2) have r: "r = Some e" by simp
  have init: "initiateCall ?ctx None (s\<lparr>deferreds := Suc (deferreds s)\<rparr>) = (Inr ?cid, s2)"
    by (simp add: assms(1) initiateCall_def getNextCallId_def Let_def)
  have cw: "callWithResult send name args command s = (Inl e, snd (discardCall ?cid s3))"
    using init sent r by (simp add: callWithResult_def Let_def)
  have act: "isCallActive ?cid s2"
    by (simp add: assms(1) initiateCall_def getNextCallId_def Let_def isCallActive_def dom_update)
  have gone: "\<not> isCallActive ?cid (snd (discardCall ?cid s3))"
    by (rule discardCall_not_active)
  then have none: "getCallContext ?cid (snd (discardCall ?cid s3)) = None"
    by (simp add: isCallActive_map_of getCallContext_def)
  have del: "activeCalls (snd (discardCall ?cid s3)) = AList.delete ?cid (activeCalls s3)"
    by (simp add: discardCall_def)
  from act cw gone none del sent show ?thesis by simp
qed

theorem callWithResult_send_failure_discards_witness:
  "fst (callWithResult sendMessage ''add'' [PInt 2, PInt 3] PNone newCallInitiator)
     = Inl NotImplementedError
   \<and> \<not> isCallActive 1
         (snd (callWithResult sendMessage ''add'' [PInt 2, PInt 3] PNone newCallInitiator))
   \<and> activeCalls (snd (callWithResult sendMessage ''add'' [PInt 2, PInt 3] PNone newCallInitiator))
       = []"
  using callWithResult_send_failure_discards
      [OF refl, of sendMessage "''add''" newCallInitiator PNone "[PInt 2, PInt 3]" NotImplementedError]
  by (simp add: sendMessage_def getNextCallId_def newCallInitiator_def initiateCall_def Let_def)

text \<open>
  C9. When \<^verbatim>\<open>handleResponse\<close> finds a context under the call id, then for every
  response name the entry is deleted from the registry and the call is not active
  afterwards, also when the response is not understood. When the name is neither the
  result tag nor the error tag, nothing is called on any Deferred; and a later response
  for the same id, whatever its tag, calls nothing either, the call being unknown by then.
\<close>

theorem handleResponse_removes_call_first:
  assumes "getCallContext callId s = Some callContext"
  shows "isCallActive callId s
       \<and> activeCalls (snd (handleResponse name callId result command s))
           = AList.delete callId (activeCalls s)
       \<and> \<not> isCallActive callId (snd (handleResponse name callId result command s))
       \<and> (name \<noteq> RESPONSE_RESULT \<and> name \<noteq> RESPONSE_ERROR \<longrightarrow>
            fired (snd (handleResponse name callId result command s)) = fired s
          \<and> fired (snd (handleResponse name' callId result' command'
                     (snd (handleResponse name callId result command s)))) = fired s)"
proof -
  let ?s' = "snd (handleResponse name callId result command s)"
  have a: "isCallActive callId s"
    using assms by (simp add: isCallActive_map_of getCallContext_def)
  have gone: "\<not> isCallActive callId ?s'"
    by (simp add: isCallActive_def handleResponse_activeCalls delete_notin_dom)
  have unfired: "fired ?s' = fired s" if "name \<noteq> RESPONSE_RESULT" "name \<noteq> RESPONSE_ERROR"
  proof (cases "unpack4 callContext")
    case (Inl e)
    with assms show ?thesis
      by (simp add: handleResponse_def finishCall_def getCallContext_def)
  next
    case (Inr t)
    obtain d n a c where "t = (d, n, a, c)"
      by (cases t)
    with assms Inr that show ?thesis
      by (simp add: handleResponse_def finishCall_def getCallContext_def Let_def logMsgs_fields)
  qed
  have later: "fired (snd (handleResponse name' callId result' command' ?s')) = fired ?s'"
    using gone
    by (simp add: handleResponse_def [of name' callId result' command' ?s'] finishCall_def
                  isCallActive_map_of logMsgs_def)
  from a gone unfired later show ?thesis
    by (simp add: handleResponse_activeCalls)
qed

theorem handleResponse_removes_call_first_witness:
  "getCallContext 1 (snd (callWithResult sendMessage_ok ''add'' [PInt 2, PInt 3] PNone newCallInitiator))
     = Some [PDeferred 0, PStr ''add'', PTuple [PInt 2, PInt 3], PNone]
   \<and> ''_status'' \<noteq> RESPONSE_RESULT \<and> ''_status'' \<noteq> RESPONSE_ERROR
   \<and> \<not> isCallActive 1 (snd (handleResponse ''_status'' 1 (PInt 5) PNone
        (snd (callWithResult sendMessage_ok ''add'' [PInt 2, PInt 3] PNone newCallInitiator))))
   \<and> fired (snd (handleResponse ''_status'' 1 (PInt 5) PNone
        (snd (callWithResult sendMessage_ok ''add'' [PInt 2, PInt 3] PNone newCallInitiator))))
      = []
   \<and> fired (snd (handleResponse RESPONSE_RESULT 1 (PInt 5) PNone
        (snd (handleResponse ''_status'' 1 (PInt 5) PNone
          (snd (callWithResult sendMessage_ok ''add'' [PInt 2, PInt 3] PNone newCallInitiator))))))
      = []"
proof -
  let ?s = "snd (callWithResult sendMessage_ok ''add'' [PInt 2, PInt 3] PNone newCallInitiator)"
  have ctx: "getCallContext 1 ?s = Some [PDeferred 0, PStr ''add'', PTuple [PInt 2, PInt 3], PNone]"
    by (simp add: callWithResult_ok getCallContext_def newCallInitiator_def)
  have f: "fired ?s = []"
    by (simp add: callWithResult_ok newCallInitiator_def)
  have tags: "''_status'' \<noteq> RESPONSE_RESULT \<and> ''_status'' \<noteq> RESPONSE_ERROR"
    by (simp add: RESPONSE_RESULT_def RESPONSE_ERROR_def)
  show ?thesis
    using ctx f tags
      handleResponse_removes_call_first
        [OF ctx, of "''_status''" "PInt 5" PNone RESPONSE_RESULT "PInt 5" PNone]
    by simp
qed

section \<open>Properties of the connection state machine\<close>

lemma streamData_simps:
  "streamData [] = []"
  "streamData (c # t) = (case c of DecoderDataReceived d \<Rightarrow> [d] | _ \<Rightarrow> []) @ streamData t"
  "streamData (t @ u) = streamData t @ streamData u"
  by (simp_all add: streamData_def)

lemma handshakeData_simps:
  "handshakeData [] = []"
  "handshakeData (c # t) = (case c of HandshakerDataReceived d \<Rightarrow> [d] | _ \<Rightarrow> []) @ handshakeData t"
  "handshakeData (t @ u) = handshakeData t @ handshakeData u"
  by (simp_all add: handshakeData_def)

lemma debugLog_fields:
  "state (debugLog msg p) = state p"
  "decoder (debugLog msg p) = decoder p"
  "encoder (debugLog msg p) = encoder p"
  "handshaker (debugLog msg p) = handshaker p"
  "registry (debugLog msg p) = registry p"
  "streamData (trace (debugLog msg p)) = streamData (trace p)"
  "handshakeData (trace (debugLog msg p)) = handshakeData (trace p)"
  by (simp_all add: debugLog_def record_call_def streamData_simps handshakeData_simps)

lemma record_call_fields:
  "state (record_call c p) = state p"
  "decoder (record_call c p) = decoder p"
  "encoder (record_call c p) = encoder p"
  "handshaker (record_call c p) = handshaker p"
  "trace (record_call c p) = trace p @ [c]"
  by (simp_all add: record_call_def)

lemma handshaking_connected: "handshaking (connected build)"
  by (cases build)
     (simp_all add: handshaking_def connected_def connectionMade_def Let_def debugLog_fields
                    newProtocol_def streamData_simps debugLog_def DEBUG_def)

lemma handshaking_handle:
  assumes "handshaking p" "ev \<noteq> HandshakeSuccess"
  shows "handshaking (handle ev p)"
proof (cases ev)
  case (DataReceived data)
  with assms(1) show ?thesis
    by (cases "handshaker p")
       (simp_all add: handshaking_def dataReceived_def decodeHandshake_def record_call_fields
                      streamData_simps)
next
  case HandshakeSuccess
  with assms(2) show ?thesis by simp
next
  case (HandshakeFailure reason)
  with assms(1) show ?thesis
    by (simp add: handshaking_def handshakeFailure_def record_call_fields debugLog_fields
                  streamData_simps)
next
  case (ConnectionLost reason)
  with assms(1) show ?thesis
    by (simp add: handshaking_def connectionLost_def Let_def debugLog_fields)
qed

lemma handshaking_run:
  "handshaking p \<Longrightarrow> HandshakeSuccess \<notin> set evs \<Longrightarrow> handshaking (run evs p)"
  unfolding run_def
  by (induction evs arbitrary: p) (auto simp: handshaking_handle)

lemma streaming_handshakeSuccess: "streaming (snd (handshakeSuccess p))"
  by (cases "handshaker p")
     (simp_all add: streaming_def handshakeSuccess_def Let_def record_call_fields debugLog_fields)

lemma handshakeSuccess_handshakeData:
  "handshakeData (trace (snd (handshakeSuccess p))) = handshakeData (trace p)"
  by (cases "handshaker p")
     (simp_all add: handshakeSuccess_def Let_def record_call_fields debugLog_fields
                    handshakeData_simps)

lemma streaming_handle:
  assumes "streaming p"
  shows "streaming (handle ev p) \<and> handshakeData (trace (handle ev p)) = handshakeData (trace p)"
proof (cases ev)
  case (DataReceived data)
  with assms show ?thesis
    by (simp add: streaming_def dataReceived_def decodeStream_def record_call_fields
                  handshakeData_simps)
next
  case HandshakeSuccess
  then show ?thesis
    by (simp add: streaming_handshakeSuccess handshakeSuccess_handshakeData)
next
  case (HandshakeFailure reason)
  with assms show ?thesis
    by (simp add: streaming_def handshakeFailure_def record_call_fields debugLog_fields
                  handshakeData_simps)
next
  case (ConnectionLost reason)
  with assms show ?thesis
    by (cases "encoder p")
       (simp_all add: streaming_def connectionLost_def Let_def debugLog_fields record_call_fields
                      handshakeData_simps)
qed

lemma streaming_run:
  "streaming p \<Longrightarrow>
     streaming (run evs p) \<and> handshakeData (trace (run evs p)) = handshakeData (trace p)"
  unfolding run_def
proof (induction evs arbitrary: p)
  case Nil
  then show ?case by simp
next
  case (Cons ev evs)
  from streaming_handle [OF Cons.prems, of ev] Cons.IH [of "handle ev p"]
  show ?case by simp
qed

lemma run_append: "run (evs1 @ evs2) p = run evs2 (run evs1 p)"
  by (simp add: run_def)

lemma run_Cons: "run (ev # evs) p = run evs (handle ev p)"
  by (simp add: run_def)

text \<open>
  C8. The connection starts from \<^verbatim>\<open>connectionMade\<close>, with any negotiator builder,
  and then receives events.

  Before handshake success: on a new object, and after any events none of which is a
  handshake success, \<^verbatim>\<open>decodeStream\<close> raises (there is no decoder), and
  \<^verbatim>\<open>dataReceived\<close> hands nothing to a decoder.

  After handshake success: whatever events follow, \<^verbatim>\<open>dataReceived\<close> is
  \<^verbatim>\<open>decodeStream\<close> and succeeds, \<^verbatim>\<open>decodeHandshake\<close> raises (the negotiator
  is deleted), and the data the negotiator has received is what it had received when the
  handshake succeeded.

  A failed handshake: \<^verbatim>\<open>handshakeFailure\<close> returns normally in every state, calls
  \<^verbatim>\<open>transport.loseConnection\<close>, hands nothing to a decoder and leaves the state as
  it was.
\<close>

theorem handshake_then_stream:
  "fst (decodeStream data newProtocol) = Inl AttributeError
   \<and> (HandshakeSuccess \<notin> set evs \<longrightarrow>
        fst (decodeStream data (run evs (connected build))) = Inl AttributeError
        \<and> streamData (trace (snd (dataReceived data (run evs (connected build))))) = [])
   \<and> (dataReceived data (run (evs1 @ HandshakeSuccess # evs2) (connected build))
        = decodeStream data (run (evs1 @ HandshakeSuccess # evs2) (connected build))
      \<and> fst (decodeStream data (run (evs1 @ HandshakeSuccess # evs2) (connected build))) = Inr ()
      \<and> fst (decodeHandshake data (run (evs1 @ HandshakeSuccess # evs2) (connected build)))
          = Inl AttributeError
      \<and> handshakeData (trace (run (evs1 @ HandshakeSuccess # evs2) (connected build)))
          = handshakeData (trace (run evs1 (connected build))))
   \<and> (fst (handshakeFailure reason p) = Inr ()
      \<and> trace (snd (handshakeFailure reason p))
          = trace (debugLog ''Failed handshake'' p) @ [LoseConnection]
      \<and> streamData (trace (snd (handshakeFailure reason p))) = streamData (trace p)
      \<and> state (snd (handshakeFailure reason p)) = state p)"
proof -
  have fresh: "fst (decodeStream data newProtocol) = Inl AttributeError"
    by (simp add: decodeStream_def newProtocol_def)
  have before: "fst (decodeStream data (run evs (connected build))) = Inl AttributeError
      \<and> streamData (trace (snd (dataReceived data (run evs (connected build))))) = []"
    if "HandshakeSuccess \<notin> set evs"
  proof -
    let ?p = "run evs (connected build)"
    have h: "handshaking ?p"
      using handshaking_connected that by (rule handshaking_run)
    then have "handshaking (handle (DataReceived data) ?p)"
      by (rule handshaking_handle) simp
    with h show ?thesis
      by (simp add: handshaking_def decodeStream_def)
  qed
  let ?q = "run (evs1 @ HandshakeSuccess # evs2) (connected build)"
  let ?r = "snd (handshakeSuccess (run evs1 (connected build)))"
  have q: "?q = run evs2 ?r"
    by (simp add: run_append run_Cons)
  have s: "streaming ?q \<and> handshakeData (trace ?q) = handshakeData (trace ?r)"
    using streaming_run [OF streaming_handshakeSuccess, of evs2 "run evs1 (connected build)"]
    by (simp add: q)
  then have after: "dataReceived data ?q = decodeStream data ?q
      \<and> fst (decodeStream data ?q) = Inr ()
      \<and> fst (decodeHandshake data ?q) = Inl AttributeError
      \<and> handshakeData (trace ?q) = handshakeData (trace (run evs1 (connected build)))"
    by (simp add: streaming_def dataReceived_def decodeStream_def decodeHandshake_def
                  handshakeSuccess_handshakeData)
  have failure: "fst (handshakeFailure reason p) = Inr ()
      \<and> trace (snd (handshakeFailure reason p))
          = trace (debugLog ''Failed handshake'' p) @ [LoseConnection]
      \<and> streamData (trace (snd (handshakeFailure reason p))) = streamData (trace p)
      \<and> state (snd (handshakeFailure reason p)) = state p"
    by (simp add: handshakeFailure_def record_call_fields debugLog_fields streamData_simps)
  from fresh before after failure show ?thesis by blast
qed

theorem handshake_then_stream_witness:
  "HandshakeSuccess \<notin> set [DataReceived ''c0'', HandshakeFailure ''bad digest'']
   \<and> trace (run [DataReceived ''c0'', HandshakeFailure ''bad digest'']
              (connected (Inr ServerNegotiator)))
       = [HandshakerDataReceived ''c0'', LoseConnection]
   \<and> fst (decodeStream ''x'' (run [DataReceived ''c0'', HandshakeFailure ''bad digest'']
        (connected (Inr ServerNegotiator)))) = Inl AttributeError
   \<and> trace (run [DataReceived ''c0'', HandshakeSuccess, DataReceived ''x'']
              (connected (Inr ServerNegotiator)))
       = [HandshakerDataReceived ''c0'', RegisterObserver Decoder, RegisterObserver Encoder,
          RegisterConsumer, DecoderDataReceived ''x'']"
  using handshake_then_stream
      [of "''x''" "[DataReceived ''c0'', HandshakeFailure ''bad digest'']" "Inr ServerNegotiator"]
  by (simp add: run_def connected_def connectionMade_def newProtocol_def DEBUG_def debugLog_def
                dataReceived_def decodeHandshake_def decodeStream_def handshakeFailure_def
                handshakeSuccess_def record_call_def Let_def)

end
